theory Spec2Isabelle
  imports Main "HOL-Library.Word" "HOL-Library.Sublist"
begin

unbundle bit_operations_syntax

section \<open>Bytes, errors, formatting\<close>

text \<open>
  Go byte slices and byte arrays are lists of 8-bit words. A fixed-size array
  \<^verbatim>\<open>[32]byte\<close> is a list whose length the Go type keeps at 32; the zero value of
  that type is \<open>zeroPreimage\<close>. \<^verbatim>\<open>bytes.Equal\<close> on two slices is equality of the lists.
\<close>

type_synonym byte = "8 word"
type_synonym bytes = "byte list"

definition zeroPreimage :: bytes where
  "zeroPreimage = replicate 32 0"

text \<open>
  Go's builtin \<^verbatim>\<open>copy(dst, src)\<close> overwrites the first \<open>min (len dst) (len src)\<close>
  elements of \<open>dst\<close> and never fails; the model returns \<open>dst\<close> after the call.
\<close>

definition copy :: "bytes \<Rightarrow> bytes \<Rightarrow> bytes" where
  "copy dst src = (let n = min (length dst) (length src) in take n src @ drop n dst)"

text \<open>
  A Go \<^verbatim>\<open>error\<close> value built by \<^verbatim>\<open>fmt.Errorf\<close> is its message; a nil error is
  \<open>None\<close> of \<open>error option\<close>. \<open>Error\<close> is the method \<^verbatim>\<open>Error()\<close>.
\<close>

datatype error = Errorf string

fun Error :: "error \<Rightarrow> string" where
  "Error (Errorf s) = s"

text \<open>The verb \<^verbatim>\<open>%v\<close> applied to a non-negative \<^verbatim>\<open>int\<close>: its decimal digits.\<close>

definition digit :: "nat \<Rightarrow> char" where
  "digit d = ''0123456789'' ! (d mod 10)"

function fmt_int :: "nat \<Rightarrow> string" where
  "fmt_int n = (if n < 10 then [digit n] else fmt_int (n div 10) @ [digit n])"
  by pat_completeness auto
termination
  by (relation "measure (\<lambda>n. n)") auto

declare fmt_int.simps [simp del]

section \<open>SHA-256 (Go's crypto/sha256)\<close>

text \<open>
  \<^verbatim>\<open>sha256.Sum256\<close> comes from Go's standard library. It is written out here so that
  the client can be run on concrete requests: one 512-bit block at a time, 64 rounds
  on eight 32-bit words, the message padded with a one bit, zeros and its bit length.
  The theorems below use none of its inner workings, only its value on one test
  preimage.
\<close>

definition sha256_K :: "32 word list" where
  "sha256_K =
     [1116352408, 1899447441, 3049323471, 3921009573, 961987163,
      1508970993, 2453635748, 2870763221, 3624381080, 310598401,
      607225278, 1426881987, 1925078388, 2162078206, 2614888103,
      3248222580, 3835390401, 4022224774, 264347078, 604807628,
      770255983, 1249150122, 1555081692, 1996064986, 2554220882,
      2821834349, 2952996808, 3210313671, 3336571891, 3584528711,
      113926993, 338241895, 666307205, 773529912, 1294757372,
      1396182291, 1695183700, 1986661051, 2177026350, 2456956037,
      2730485921, 2820302411, 3259730800, 3345764771, 3516065817,
      3600352804, 4094571909, 275423344, 430227734, 506948616,
      659060556, 883997877, 958139571, 1322822218, 1537002063,
      1747873779, 1955562222, 2024104815, 2227730452, 2361852424,
      2428436474, 2756734187, 3204031479, 3329325298]"

definition sha256_init :: "32 word list" where
  "sha256_init =
     [1779033703, 3144134277, 1013904242, 2773480762, 1359893119,
      2600822924, 528734635, 1541459225]"

definition rotr :: "nat \<Rightarrow> 32 word \<Rightarrow> 32 word" where
  "rotr n x = (drop_bit n x) OR (push_bit (32 - n) x)"

definition sha256_choose :: "32 word \<Rightarrow> 32 word \<Rightarrow> 32 word \<Rightarrow> 32 word" where
  "sha256_choose x y z = (x AND y) XOR (NOT x AND z)"

definition sha256_majority :: "32 word \<Rightarrow> 32 word \<Rightarrow> 32 word \<Rightarrow> 32 word" where
  "sha256_majority x y z = (x AND y) XOR (x AND z) XOR (y AND z)"

definition big_sigma0 :: "32 word \<Rightarrow> 32 word" where
  "big_sigma0 x = rotr 2 x XOR rotr 13 x XOR rotr 22 x"

definition big_sigma1 :: "32 word \<Rightarrow> 32 word" where
  "big_sigma1 x = rotr 6 x XOR rotr 11 x XOR rotr 25 x"

definition small_sigma0 :: "32 word \<Rightarrow> 32 word" where
  "small_sigma0 x = rotr 7 x XOR rotr 18 x XOR drop_bit 3 x"

definition small_sigma1 :: "32 word \<Rightarrow> 32 word" where
  "small_sigma1 x = rotr 17 x XOR rotr 19 x XOR drop_bit 10 x"

fun words_of_bytes :: "bytes \<Rightarrow> 32 word list" where
  "words_of_bytes (a # b # c # d # r) =
     (push_bit 24 (ucast a) OR push_bit 16 (ucast b) OR push_bit 8 (ucast c) OR ucast d)
       # words_of_bytes r"
| "words_of_bytes _ = []"

definition bytes_of_word :: "32 word \<Rightarrow> bytes" where
  "bytes_of_word w = [ucast (drop_bit 24 w), ucast (drop_bit 16 w), ucast (drop_bit 8 w), ucast w]"

definition bytes_of_len :: "64 word \<Rightarrow> bytes" where
  "bytes_of_len w = map (\<lambda>k. ucast (drop_bit k w)) [56, 48, 40, 32, 24, 16, 8, 0]"

definition sha256_pad :: "bytes \<Rightarrow> bytes" where
  "sha256_pad m =
     m @ [128] @ replicate ((119 - length m mod 64) mod 64) 0
       @ bytes_of_len (word_of_nat (8 * length m))"

text \<open>The message schedule is kept with its newest word first.\<close>

fun sha256_schedule :: "nat \<Rightarrow> 32 word list \<Rightarrow> 32 word list" where
  "sha256_schedule 0 ws = ws"
| "sha256_schedule (Suc n) ws =
     sha256_schedule n
       ((small_sigma1 (ws ! 1) + ws ! 6 + small_sigma0 (ws ! 14) + ws ! 15) # ws)"

fun sha256_rounds :: "32 word list \<Rightarrow> 32 word list \<Rightarrow> 32 word list \<Rightarrow> 32 word list" where
  "sha256_rounds (k # ks) (w # ws) [a, b, c, d, e, f, g, h] =
     (let t1 = h + big_sigma1 e + sha256_choose e f g + k + w;
          t2 = big_sigma0 a + sha256_majority a b c
      in sha256_rounds ks ws [t1 + t2, a, b, c, d + t1, e, f, g])"
| "sha256_rounds _ _ st = st"

definition sha256_block :: "32 word list \<Rightarrow> bytes \<Rightarrow> 32 word list" where
  "sha256_block hs blk =
     map2 (+) hs
       (sha256_rounds sha256_K (rev (sha256_schedule 48 (rev (words_of_bytes blk)))) hs)"

fun sha256_blocks :: "nat \<Rightarrow> bytes \<Rightarrow> 32 word list \<Rightarrow> 32 word list" where
  "sha256_blocks 0 m hs = hs"
| "sha256_blocks (Suc n) m hs = sha256_blocks n (drop 64 m) (sha256_block hs (take 64 m))"

definition sha256_Sum256 :: "bytes \<Rightarrow> bytes" where
  "sha256_Sum256 m =
     concat (map bytes_of_word
       (sha256_blocks (length (sha256_pad m) div 64) (sha256_pad m) sha256_init))"

section \<open>External Preimage Client (extpreimage/client.go)\<close>

datatype Symbol = Symbol_BTC | Symbol_LTC

record GetPreimageRequest =
  rpc_PaymentHash :: bytes
  rpc_Amount :: "64 word"
  rpc_Symbol :: Symbol
  rpc_TimeLock :: "64 word"
  rpc_BestHeight :: "64 word"

record GetPreimageResponse =
  res_PaymentPreimage :: bytes
  res_PermanentError :: string

record PreimageRequest =
  req_PaymentHash :: bytes
  req_Amount :: "64 word"
  req_TimeLock :: "32 word"
  req_BestHeight :: "32 word"

text \<open>
  The gRPC transport is the interface \<^verbatim>\<open>RPC\<close> together with the stream it opens.
  Its methods act on the network, a state of type \<open>'n\<close> that the model passes through:
  \<open>Dial\<close> yields a connection or an error, \<open>GetPreimage\<close> (open the stream, send
  the request, close the send side) yields a stream or an error, and \<open>Recv\<close> yields
  \<^verbatim>\<open>io.EOF\<close>, another error, or a message.
\<close>

type_synonym ClientConn = nat
type_synonym Stream = nat

datatype RecvResult = RecvEOF | RecvErr error | RecvMsg GetPreimageResponse

record 'n RPC =
  Dial :: "string \<Rightarrow> 'n \<Rightarrow> (error + ClientConn) \<times> 'n"
  GetPreimage :: "ClientConn \<Rightarrow> GetPreimageRequest \<Rightarrow> 'n \<Rightarrow> (error + Stream) \<times> 'n"
  Recv :: "Stream \<Rightarrow> 'n \<Rightarrow> RecvResult \<times> 'n"

record client =
  host :: string
  chain :: string
  conn :: "ClientConn option"

text \<open>
  \<^verbatim>\<open>connect\<close> dials when \<^verbatim>\<open>c.conn\<close> is nil and stores the connection in the
  client; otherwise it reuses the stored one. (The two \<^verbatim>\<open>Printf\<close> lines write to
  standard output only.)
\<close>

definition connect :: "'n RPC \<Rightarrow> client \<times> 'n \<Rightarrow> (error + ClientConn) \<times> (client \<times> 'n)" where
  "connect rpc s =
     (case s of (c, n) \<Rightarrow>
        (case conn c of
           None \<Rightarrow>
             (case Dial rpc (host c) n of
                (Inl err, n') \<Rightarrow>
                  (Inl (Errorf (''extpreimage: Failed to start gRPC connection: '' @ Error err)),
                   (c, n'))
              | (Inr cn, n') \<Rightarrow> (Inr cn, (c\<lparr>conn := Some cn\<rparr>, n')))
         | Some cn \<Rightarrow> (Inr cn, (c, n))))"

text \<open>
  \<^verbatim>\<open>retrieve\<close>: connect, open the stream, read one response. Every branch of the
  body of the source's \<^verbatim>\<open>for\<close> returns, so the loop runs once.
\<close>

definition retrieve ::
  "'n RPC \<Rightarrow> GetPreimageRequest \<Rightarrow> client \<times> 'n \<Rightarrow> (error + GetPreimageResponse) \<times> (client \<times> 'n)"
where
  "retrieve rpc req s =
     (case connect rpc s of
        (Inl err, s1) \<Rightarrow> (Inl err, s1)
      | (Inr cl, (c1, n1)) \<Rightarrow>
          (case GetPreimage rpc cl req n1 of
             (Inl err, n2) \<Rightarrow> (Inl err, (c1, n2))
           | (Inr stream, n2) \<Rightarrow>
               (case Recv rpc stream n2 of
                  (RecvEOF, n3) \<Rightarrow>
                    (Inl (Errorf ''extpreimage: server closed stream early''), (c1, n3))
                | (RecvErr err, n3) \<Rightarrow> (Inl err, (c1, n3))
                | (RecvMsg res, n3) \<Rightarrow> (Inr res, (c1, n3)))))"

definition symbol :: "client \<Rightarrow> Symbol \<times> error option" where
  "symbol c =
     (if chain c = ''bitcoin'' then (Symbol_BTC, None)
      else if chain c = ''litecoin'' then (Symbol_LTC, None)
      else (Symbol_BTC, Some (Errorf (''extpreimage: Invalid chain name: '' @ chain c))))"

text \<open>
  \<^verbatim>\<open>Retrieve\<close> returns the preimage, the temporary error and the permanent error,
  in this order.
\<close>

type_synonym resolution = "bytes \<times> error option \<times> error option"

definition rpcReq :: "PreimageRequest \<Rightarrow> Symbol \<Rightarrow> GetPreimageRequest" where
  "rpcReq req smb =
     \<lparr>rpc_PaymentHash = req_PaymentHash req, rpc_Amount = req_Amount req, rpc_Symbol = smb,
      rpc_TimeLock = ucast (req_TimeLock req), rpc_BestHeight = ucast (req_BestHeight req)\<rparr>"

definition Retrieve ::
  "'n RPC \<Rightarrow> PreimageRequest \<Rightarrow> client \<times> 'n \<Rightarrow> resolution \<times> (client \<times> 'n)"
where
  "Retrieve rpc req s =
     (let preimage = zeroPreimage in
      case symbol (fst s) of
        (smb, Some err) \<Rightarrow> ((preimage, Some err, None), s)
      | (smb, None) \<Rightarrow>
          (case retrieve rpc (rpcReq req smb) s of
             (Inl err, s1) \<Rightarrow> ((preimage, Some err, None), s1)
           | (Inr res, s1) \<Rightarrow>
               if res_PermanentError res \<noteq> ''''
               then ((preimage, None,
                      Some (Errorf (''extpreimage: Encountered permanent error from external service: ''
                                    @ res_PermanentError res))), s1)
               else if length (res_PaymentPreimage res) \<noteq> 32
               then ((preimage,
                      Some (Errorf (''extpreimage: Returned preimage was of length ''
                                    @ fmt_int (length (res_PaymentPreimage res))
                                    @ '', expected '' @ fmt_int 32)), None), s1)
               else if sha256_Sum256 (res_PaymentPreimage res) \<noteq> req_PaymentHash req
               then ((preimage,
                      Some (Errorf ''extpreimage: Returned preimage did not match provided hash''),
                      None), s1)
               else ((copy preimage (res_PaymentPreimage res), None, None), s1)))"

section \<open>Collaborators and the record of their calls\<close>

text \<open>
  The invoice of \<^verbatim>\<open>extpreimage/invoice.go\<close>. \<^verbatim>\<open>channeldb.ContractTerm\<close> has the same
  five fields, and its \<^verbatim>\<open>GetPaymentPreimage\<close> (\<^verbatim>\<open>channeldb/invoice_preimages.go\<close>) has the
  same body, statement for statement.
\<close>

record Invoice =
  ExternalPreimage :: bool
  PaymentHash :: bytes
  PaymentPreimage :: bytes
  Value :: "64 word"
  Settled :: bool

text \<open>\<^verbatim>\<open>channeldb.Invoice\<close>, of which the beacon reads the field \<^verbatim>\<open>Terms\<close> only.\<close>

record channeldb_Invoice =
  Terms :: Invoice

datatype WitnessType = Sha256HashWitness

type_synonym chan = nat

record preimageSubscriber =
  updateChan :: chan
  quit :: chan

text \<open>
  The two \<^verbatim>\<open>go\<close> statements of the beacon: the poll that \<^verbatim>\<open>LookupPreimage\<close> starts
  (invoice term and interval in nanoseconds) and the delivery that \<^verbatim>\<open>AddPreimage\<close> starts
  for one subscriber (the goroutine that sends \<open>pre\<close> on the subscriber's
  \<^verbatim>\<open>updateChan\<close> unless its \<^verbatim>\<open>quit\<close> is closed first).
\<close>

datatype goroutine =
    Go_pollExtpreimage Invoice nat
  | Go_notify preimageSubscriber bytes

text \<open>
  Everything a function does to the world outside its own variables is a call of a
  collaborator, a \<^verbatim>\<open>go\<close> statement or the closing of a channel. The state \<open>sys\<close>
  holds the list of these, in the order they happen, and the state \<open>world\<close> of the
  collaborators, which only they read and change.
\<close>

datatype call =
    Call_Retrieve PreimageRequest
  | Call_AddInvoicePreimage bytes bytes
  | Call_LookupInvoice bytes
  | Call_LookupWitness WitnessType bytes
  | Call_AddWitness WitnessType bytes
  | Go goroutine
  | Close chan

record 'w sys =
  calls :: "call list"
  world :: 'w

definition invoke :: "call \<Rightarrow> ('w \<Rightarrow> 'a \<times> 'w) \<Rightarrow> 'w sys \<Rightarrow> 'a \<times> 'w sys" where
  "invoke c f s = (case f (world s) of (r, w') \<Rightarrow> (r, \<lparr>calls = calls s @ [c], world = w'\<rparr>))"

definition effect :: "call \<Rightarrow> 'w sys \<Rightarrow> 'w sys" where
  "effect c s = s\<lparr>calls := calls s @ [c]\<rparr>"

text \<open>
  The interfaces \<^verbatim>\<open>extpreimage.Client\<close> (its method \<^verbatim>\<open>Retrieve\<close>; a nil client is
  \<open>None\<close>), \<^verbatim>\<open>InvoiceRegistry\<close>, \<^verbatim>\<open>htlcswitch.InvoiceDatabase\<close> and \<^verbatim>\<open>witnessCache\<close>.
  \<^verbatim>\<open>LookupInvoice\<close> answers with an invoice and a nil error, with the error
  \<^verbatim>\<open>channeldb.ErrInvoiceNotFound\<close>, or with another error.
\<close>

type_synonym 'w Client = "PreimageRequest \<Rightarrow> 'w \<Rightarrow> resolution \<times> 'w"

type_synonym 'w InvoiceRegistry = "bytes \<Rightarrow> bytes \<Rightarrow> 'w \<Rightarrow> error option \<times> 'w"

datatype LookupInvoiceResult =
    InvoiceFound channeldb_Invoice "32 word"
  | ErrInvoiceNotFound
  | LookupInvoiceErr error

record 'w InvoiceDatabase =
  LookupInvoice :: "bytes \<Rightarrow> 'w \<Rightarrow> LookupInvoiceResult \<times> 'w"
  AddInvoicePreimage :: "'w InvoiceRegistry"

record 'w witnessCache =
  LookupWitness :: "WitnessType \<Rightarrow> bytes \<Rightarrow> 'w \<Rightarrow> (bytes option \<times> error option) \<times> 'w"
  AddWitness :: "WitnessType \<Rightarrow> bytes \<Rightarrow> 'w \<Rightarrow> error option \<times> 'w"

section \<open>Resolution Glue (extpreimage/invoice.go, \<^verbatim>\<open>channeldb/invoice_preimages.go\<close>)\<close>

text \<open>
  \<^verbatim>\<open>GetPaymentPreimage\<close> has a pointer receiver: the model returns the invoice as it
  is after the call, next to the three results. \<^verbatim>\<open>MilliSatoshi.ToSatoshis\<close> (package
  \<^verbatim>\<open>lnwire\<close>) is the parameter \<open>ToSatoshis\<close>. The registry is a non-nil interface
  value; the source tests the client alone against nil.
\<close>

definition GetPaymentPreimage ::
  "(64 word \<Rightarrow> 64 word) \<Rightarrow> Invoice \<Rightarrow> 32 word \<Rightarrow> 32 word \<Rightarrow> 'w Client option
     \<Rightarrow> 'w InvoiceRegistry \<Rightarrow> 'w sys \<Rightarrow> resolution \<times> Invoice \<times> 'w sys"
where
  "GetPaymentPreimage ToSatoshis i timeLock currentHeight extpreimageClient registry s =
     (if PaymentPreimage i \<noteq> zeroPreimage then ((PaymentPreimage i, None, None), i, s)
      else if ExternalPreimage i then
        (case extpreimageClient of
           None \<Rightarrow> ((zeroPreimage, Some (Errorf ''no extpreimage client configured''), None), i, s)
         | Some cl \<Rightarrow>
             (let preimageRequest =
                    \<lparr>req_PaymentHash = PaymentHash i, req_Amount = ToSatoshis (Value i),
                     req_TimeLock = timeLock, req_BestHeight = currentHeight\<rparr>
              in case invoke (Call_Retrieve preimageRequest) (cl preimageRequest) s of
                   ((preimage, tempErr, permErr), s1) \<Rightarrow>
                     if permErr \<noteq> None then ((zeroPreimage, None, permErr), i, s1)
                     else if tempErr \<noteq> None then ((zeroPreimage, tempErr, None), i, s1)
                     else
                       (case invoke (Call_AddInvoicePreimage (PaymentHash i) preimage)
                                    (registry (PaymentHash i) preimage) s1 of
                          (err, s2) \<Rightarrow>
                            if err \<noteq> None then ((zeroPreimage, err, None), i, s2)
                            else ((preimage, None, None), i, s2))))
      else ((zeroPreimage, None, Some (Errorf ''no preimage available on invoice'')), i, s))"

section \<open>Preimage Beacon\<close>

text \<open>
  The beacon with its poll registry. \<^verbatim>\<open>subscribers\<close> is a Go map; its entries are
  listed in the order in which \<^verbatim>\<open>range\<close> visits them. \<^verbatim>\<open>polls\<close> is a map that may be
  nil (\<open>None\<close>).
\<close>

record 'w preimageBeacon =
  extpreimageClient :: "'w Client option"
  invoices :: "'w InvoiceDatabase"
  wCache :: "'w witnessCache"
  clientCounter :: "64 word"
  subscribers :: "(64 word \<times> preimageSubscriber) list"
  pollCounter :: "64 word"
  polls :: "(64 word \<rightharpoonup> chan) option"

definition castInvoiceTerm :: "channeldb_Invoice \<Rightarrow> Invoice" where
  "castInvoiceTerm i = Terms i"

definition Second :: nat where
  "Second = 1000000000"

text \<open>
  \<^verbatim>\<open>AddPreimage\<close>: write to the witness cache; on an error return it at once; otherwise
  start one delivery per subscriber. (The lock and the log lines have no counterpart.)
\<close>

definition AddPreimage :: "'w preimageBeacon \<Rightarrow> bytes \<Rightarrow> 'w sys \<Rightarrow> error option \<times> 'w sys" where
  "AddPreimage p pre s =
     (case invoke (Call_AddWitness Sha256HashWitness pre)
                  (AddWitness (wCache p) Sha256HashWitness pre) s of
        (err, s1) \<Rightarrow>
          if err \<noteq> None then (err, s1)
          else (None, foldl (\<lambda>s' c. effect (Go (Go_notify c pre)) s') s1
                        (map snd (subscribers p))))"

text \<open>
  \<^verbatim>\<open>LookupPreimage\<close> returns a slice (nil is \<open>None\<close>) and the flag. The invoice key is
  a zeroed 32-byte array into which \<^verbatim>\<open>payHash\<close> is copied.
\<close>

definition invoiceKey :: "bytes \<Rightarrow> bytes" where
  "invoiceKey payHash = copy (replicate 32 0) payHash"

definition LookupPreimage ::
  "(64 word \<Rightarrow> 64 word) \<Rightarrow> 'w preimageBeacon \<Rightarrow> bytes \<Rightarrow> 'w sys \<Rightarrow> (bytes option \<times> bool) \<times> 'w sys"
where
  "LookupPreimage ToSatoshis p payHash s =
     (case invoke (Call_LookupInvoice (invoiceKey payHash))
                  (LookupInvoice (invoices p) (invoiceKey payHash)) s of
        (LookupInvoiceErr err, s1) \<Rightarrow> ((None, False), s1)
      | (InvoiceFound invoice height, s1) \<Rightarrow>
          (let invoiceTerm = castInvoiceTerm invoice
           in case GetPaymentPreimage ToSatoshis invoiceTerm 0 0 (extpreimageClient p)
                     (AddInvoicePreimage (invoices p)) s1 of
                ((preimage, tempErr, permErr), invoiceTerm', s2) \<Rightarrow>
                  if permErr \<noteq> None then ((None, False), s2)
                  else if tempErr \<noteq> None
                  then ((None, False),
                        effect (Go (Go_pollExtpreimage invoiceTerm' (10 * Second))) s2)
                  else ((Some preimage, True), s2))
      | (ErrInvoiceNotFound, s1) \<Rightarrow>
          (case invoke (Call_LookupWitness Sha256HashWitness payHash)
                       (LookupWitness (wCache p) Sha256HashWitness payHash) s1 of
             ((preimage, err), s2) \<Rightarrow>
               if err \<noteq> None then ((None, False), s2) else ((preimage, True), s2)))"

text \<open>
  \<^verbatim>\<open>pollExtpreimage\<close>. The \<^verbatim>\<open>select\<close> of the loop receives either a tick of the ticker
  or a value on \<^verbatim>\<open>quit\<close>; the list of events is what it receives, in order, and when
  the list is used up the loop is still waiting (\<open>Polling\<close>). The channel that
  \<^verbatim>\<open>make\<close> allocates is the argument \<open>quitChan\<close>. The deferred function runs on every
  return of the loop.
\<close>

datatype select_event = Tick | Quit

datatype poll_status = Polling | Stopped

fun poll_loop ::
  "(64 word \<Rightarrow> 64 word) \<Rightarrow> 'w preimageBeacon \<Rightarrow> Invoice \<Rightarrow> select_event list \<Rightarrow> 'w sys
     \<Rightarrow> poll_status \<times> 'w sys"
where
  "poll_loop ToSatoshis p i [] s = (Polling, s)"
| "poll_loop ToSatoshis p i (Quit # es) s = (Stopped, s)"
| "poll_loop ToSatoshis p i (Tick # es) s =
     (case GetPaymentPreimage ToSatoshis i 0 0 (extpreimageClient p)
             (AddInvoicePreimage (invoices p)) s of
        ((preimage, tempErr, permErr), i', s1) \<Rightarrow>
          if permErr \<noteq> None then (Stopped, s1)
          else if tempErr \<noteq> None then poll_loop ToSatoshis p i' es s1
          else (case AddPreimage p preimage s1 of (err, s2) \<Rightarrow> (Stopped, s2)))"

definition pollExtpreimage ::
  "(64 word \<Rightarrow> 64 word) \<Rightarrow> 'w preimageBeacon \<Rightarrow> Invoice \<Rightarrow> nat \<Rightarrow> chan \<Rightarrow> select_event list
     \<Rightarrow> 'w sys \<Rightarrow> poll_status \<times> 'w preimageBeacon \<times> 'w sys"
where
  "pollExtpreimage ToSatoshis p i pollInterval quitChan es s =
     (let polls0 = (case polls p of None \<Rightarrow> Map.empty | Some m \<Rightarrow> m);
          pollID = pollCounter p;
          p1 = p\<lparr>polls := Some (polls0(pollID \<mapsto> quitChan)), pollCounter := pollCounter p + 1\<rparr>
      in case poll_loop ToSatoshis p1 i es s of
           (Polling, s1) \<Rightarrow> (Polling, p1, s1)
         | (Stopped, s1) \<Rightarrow>
             (Stopped,
              p1\<lparr>polls := map_option (\<lambda>m. m(pollID := None)) (polls p1)\<rparr>,
              effect (Close quitChan) s1))"

section \<open>Observations on the record of calls\<close>

text \<open>The goroutines started so far, and the calls that the resolution glue may make.\<close>

definition spawned :: "'w sys \<Rightarrow> goroutine list" where
  "spawned s = concat (map (\<lambda>c. case c of Go g \<Rightarrow> [g] | _ \<Rightarrow> []) (calls s))"

definition glue_call :: "call \<Rightarrow> bool" where
  "glue_call c =
     (case c of Call_Retrieve r \<Rightarrow> True | Call_AddInvoicePreimage h q \<Rightarrow> True | _ \<Rightarrow> False)"

section \<open>Test doubles\<close>

text \<open>
  The mocks of the repository's tests, used to run the functions on concrete inputs.
  \<^verbatim>\<open>makePreimage\<close> and the preimage \<^verbatim>\<open>"fake preimage"\<close> are those of
  \<^verbatim>\<open>extpreimage/client_test.go\<close>; \<open>fake_hash\<close> is the SHA-256 digest of that preimage.
  \<open>mockRpc\<close> always connects and answers \<^verbatim>\<open>Recv\<close> with the given result.
\<close>

definition bytes_of_string :: "string \<Rightarrow> bytes" where
  "bytes_of_string s = map of_char s"

definition makePreimage :: "string \<Rightarrow> bytes" where
  "makePreimage input = copy (replicate 32 0) (bytes_of_string input)"

definition fake_preimage :: bytes where
  "fake_preimage = makePreimage ''fake preimage''"

definition fake_hash :: bytes where
  "fake_hash =
     [97, 219, 105, 219, 5, 224, 236, 248, 40, 130, 119, 181, 125, 120, 90, 16,
      171, 130, 150, 1, 101, 216, 236, 211, 102, 136, 254, 157, 121, 101, 147, 242]"

definition mockRpc :: "RecvResult \<Rightarrow> unit RPC" where
  "mockRpc r =
     \<lparr>Dial = (\<lambda>h n. (Inr 0, n)), GetPreimage = (\<lambda>c q n. (Inr 0, n)), Recv = (\<lambda>st n. (r, n))\<rparr>"

definition newMock :: "string \<Rightarrow> string \<Rightarrow> client" where
  "newMock h c = \<lparr>host = h, chain = c, conn = None\<rparr>"

definition mockRequest :: "bytes \<Rightarrow> PreimageRequest" where
  "mockRequest h =
     \<lparr>req_PaymentHash = h, req_Amount = 1, req_TimeLock = 288, req_BestHeight = 123456\<rparr>"

text \<open>
  The state of the beacon's mocks: how many requests the client has answered, the
  witnesses the cache holds, and the preimages the registry has stored.
\<close>

record mock_world =
  requestCount :: nat
  witnesses :: "bytes list"
  invoicePreimages :: "(bytes \<times> bytes) list"

definition mockExtpreimageClient :: "resolution list \<Rightarrow> mock_world Client" where
  "mockExtpreimageClient responses req w =
     ((if requestCount w < length responses then responses ! requestCount w
       else (zeroPreimage, Some (Errorf ''no response left''), None)),
      w\<lparr>requestCount := Suc (requestCount w)\<rparr>)"

definition mockRegistry ::
  "(bytes \<times> channeldb_Invoice) list \<Rightarrow> error option \<Rightarrow> mock_world InvoiceDatabase" where
  "mockRegistry invs err =
     \<lparr>LookupInvoice =
        (\<lambda>k w. (case map_of invs k of
                   None \<Rightarrow> ErrInvoiceNotFound
                 | Some i \<Rightarrow> InvoiceFound i 0, w)),
      AddInvoicePreimage =
        (\<lambda>h q w. (case err of
                     Some e \<Rightarrow> (Some e, w)
                   | None \<Rightarrow> (None, w\<lparr>invoicePreimages := invoicePreimages w @ [(h, q)]\<rparr>)))\<rparr>"

definition mockWitnessCache :: "error option \<Rightarrow> mock_world witnessCache" where
  "mockWitnessCache err =
     \<lparr>LookupWitness = (\<lambda>t h w. ((None, Some (Errorf ''no witness'')), w)),
      AddWitness =
        (\<lambda>t x w. (case err of
                     Some e \<Rightarrow> (Some e, w)
                   | None \<Rightarrow> (None, w\<lparr>witnesses := witnesses w @ [x]\<rparr>)))\<rparr>"

definition mockInvoice :: "bool \<Rightarrow> bytes \<Rightarrow> Invoice" where
  "mockInvoice ext pre =
     \<lparr>ExternalPreimage = ext, PaymentHash = fake_hash, PaymentPreimage = pre,
      Value = 1000, Settled = False\<rparr>"

definition mockBeacon ::
  "resolution list \<Rightarrow> Invoice \<Rightarrow> error option \<Rightarrow> mock_world preimageBeacon" where
  "mockBeacon responses i werr =
     \<lparr>extpreimageClient = Some (mockExtpreimageClient responses),
      invoices = mockRegistry [(fake_hash, \<lparr>Terms = i\<rparr>)] None,
      wCache = mockWitnessCache werr,
      clientCounter = 2,
      subscribers = [(0, \<lparr>updateChan = 10, quit = 11\<rparr>), (1, \<lparr>updateChan = 12, quit = 13\<rparr>)],
      pollCounter = 0,
      polls = None\<rparr>"

definition start :: "mock_world sys" where
  "start = \<lparr>calls = [], world = \<lparr>requestCount = 0, witnesses = [], invoicePreimages = []\<rparr>\<rparr>"

text \<open>\<^verbatim>\<open>MilliSatoshi.ToSatoshis\<close> as the tests expect it: 1000 millisatoshis are 1 satoshi.\<close>

definition mockToSatoshis :: "64 word \<Rightarrow> 64 word" where
  "mockToSatoshis m = m div 1000"

section \<open>Facts about the test doubles\<close>

lemma length_fake_preimage: "length fake_preimage = 32"
  by (simp add: fake_preimage_def makePreimage_def bytes_of_string_def copy_def)

lemma fake_preimage_nonzero: "fake_preimage \<noteq> zeroPreimage"
  by code_simp

lemma fake_hash_nonzero: "fake_hash \<noteq> zeroPreimage"
  by code_simp

lemma retrieve_mock:
  "retrieve (mockRpc (RecvMsg r)) q (newMock h c, ())
     = (Inr r, ((newMock h c)\<lparr>conn := Some 0\<rparr>, ()))"
  by (simp add: retrieve_def connect_def mockRpc_def newMock_def)

lemma symbol_bitcoin: "symbol (newMock h ''bitcoin'') = (Symbol_BTC, None)"
  by (simp add: symbol_def newMock_def)

section \<open>The results of Retrieve and of GetPaymentPreimage\<close>

lemma copy_zero32: "length xs = 32 \<Longrightarrow> copy zeroPreimage xs = xs"
  by (simp add: copy_def zeroPreimage_def)

lemma Retrieve_cases:
  "Retrieve rpc req s = ((pre, te, pe), s') \<Longrightarrow>
     (pre = zeroPreimage \<and> te \<noteq> None \<and> pe = None)
   \<or> (pre = zeroPreimage \<and> te = None \<and> pe \<noteq> None)
   \<or> (te = None \<and> pe = None \<and> length pre = 32 \<and> sha256_Sum256 pre = req_PaymentHash req)"
  by (auto simp: Retrieve_def Let_def copy_zero32
           split: prod.splits option.splits sum.splits if_splits)

lemma GPP_cases:
  "GetPaymentPreimage T i tlk h cl reg s = ((pre, te, pe), i', s') \<Longrightarrow>
     (pre = zeroPreimage \<and> te \<noteq> None \<and> pe = None)
   \<or> (pre = zeroPreimage \<and> te = None \<and> pe \<noteq> None)
   \<or> (te = None \<and> pe = None)"
  by (auto simp: GetPaymentPreimage_def Let_def
           split: prod.splits option.splits sum.splits if_splits)

lemma GPP_invoice: "GetPaymentPreimage T i tlk h cl reg s = (r, i', s') \<Longrightarrow> i' = i"
  by (auto simp: GetPaymentPreimage_def Let_def
           split: prod.splits option.splits sum.splits if_splits)

lemma invoke_calls: "invoke c f s = (r, s1) \<Longrightarrow> calls s1 = calls s @ [c]"
  by (auto simp: invoke_def split: prod.splits)

text \<open>
  What \<open>GetPaymentPreimage\<close> adds to the record of calls: nothing, one call of the
  client, or one call of the client followed by one write to the registry; and the
  write happens exactly when the call returns a preimage without an error.
\<close>

lemma GPP_calls:
  assumes run: "GetPaymentPreimage T i tlk h cl reg s = ((pre, te, pe), i', s')"
  shows "calls s' = calls s
       \<or> (\<exists>q. calls s' = calls s @ [Call_Retrieve q])
       \<or> (\<exists>q x. calls s' = calls s @ [Call_Retrieve q, Call_AddInvoicePreimage (PaymentHash i) x])"
proof (cases "PaymentPreimage i \<noteq> zeroPreimage \<or> \<not> ExternalPreimage i \<or> cl = None")
  case True
  then have "s' = s"
    using run by (auto simp: GetPaymentPreimage_def split: if_splits)
  then show ?thesis by simp
next
  case False
  then obtain c where cl: "cl = Some c" and zero: "PaymentPreimage i = zeroPreimage"
    and ext: "ExternalPreimage i" by auto
  let ?q = "\<lparr>req_PaymentHash = PaymentHash i, req_Amount = T (Value i),
             req_TimeLock = tlk, req_BestHeight = h\<rparr>"
  obtain x xt xp s1 where r1: "invoke (Call_Retrieve ?q) (c ?q) s = ((x, xt, xp), s1)"
    by (metis prod_cases3 surj_pair)
  have c1: "calls s1 = calls s @ [Call_Retrieve ?q]"
    using r1 by (rule invoke_calls)
  obtain err s2 where r2:
    "invoke (Call_AddInvoicePreimage (PaymentHash i) x) (reg (PaymentHash i) x) s1 = (err, s2)"
    by (metis surj_pair)
  have c2: "calls s2 = calls s @ [Call_Retrieve ?q, Call_AddInvoicePreimage (PaymentHash i) x]"
    using invoke_calls[OF r2] c1 by simp
  have "s' = s1 \<or> s' = s2"
    using run cl zero ext r1 r2 by (simp add: GetPaymentPreimage_def split: if_splits)
  then show ?thesis using c1 c2 by blast
qed

lemma GPP_external_success_calls:
  assumes run: "GetPaymentPreimage T i tlk h cl reg s = ((pre, None, None), i', s')"
    and zero: "PaymentPreimage i = zeroPreimage"
  shows "\<exists>q. calls s' = calls s @ [Call_Retrieve q, Call_AddInvoicePreimage (PaymentHash i) pre]"
proof -
  have ext: "ExternalPreimage i"
    using run zero by (auto simp: GetPaymentPreimage_def split: if_splits)
  obtain c where cl: "cl = Some c"
    using run zero ext by (cases cl) (auto simp: GetPaymentPreimage_def)
  let ?q = "\<lparr>req_PaymentHash = PaymentHash i, req_Amount = T (Value i),
             req_TimeLock = tlk, req_BestHeight = h\<rparr>"
  obtain x xt xp s1 where r1: "invoke (Call_Retrieve ?q) (c ?q) s = ((x, xt, xp), s1)"
    by (metis prod_cases3 surj_pair)
  obtain err s2 where r2:
    "invoke (Call_AddInvoicePreimage (PaymentHash i) x) (reg (PaymentHash i) x) s1 = (err, s2)"
    by (metis surj_pair)
  have res: "xp = None \<and> xt = None \<and> err = None \<and> pre = x \<and> s' = s2"
    using run cl zero ext r1 r2 by (simp add: GetPaymentPreimage_def split: if_splits)
  have "calls s2 = calls s @ [Call_Retrieve ?q, Call_AddInvoicePreimage (PaymentHash i) x]"
    using invoke_calls[OF r2] invoke_calls[OF r1] by simp
  then show ?thesis using res by blast
qed

lemma GPP_spawned:
  "GetPaymentPreimage T i tlk h cl reg s = ((pre, te, pe), i', s') \<Longrightarrow> spawned s' = spawned s"
  using GPP_calls[of T i tlk h cl reg s pre te pe i' s'] by (auto simp: spawned_def)

section \<open>Resolution glue: local preimage, no preimage, frame\<close>

text \<open>
  C5. An invoice whose stored \<open>PaymentPreimage\<close> is not the zero value: for every
  \<open>ExternalPreimage\<close> flag, time lock, height, client and registry,
  \<open>GetPaymentPreimage\<close> returns the stored preimage with both errors nil, and it leaves
  the state as it found it: the record of calls gains no call of the client and no write
  to the registry, and the collaborators' state is untouched.
\<close>

theorem GetPaymentPreimage_local_preimage:
  "PaymentPreimage i \<noteq> zeroPreimage \<Longrightarrow>
     GetPaymentPreimage ToSatoshis i timeLock currentHeight client registry s
       = ((PaymentPreimage i, None, None), i, s)"
  by (simp add: GetPaymentPreimage_def)

theorem GetPaymentPreimage_local_preimage_witness:
  "PaymentPreimage (mockInvoice True fake_preimage) \<noteq> zeroPreimage
   \<and> GetPaymentPreimage mockToSatoshis (mockInvoice True fake_preimage) 288 123456
        (Some (mockExtpreimageClient [(zeroPreimage, None, Some (Errorf ''fake permanent error''))]))
        (AddInvoicePreimage (mockRegistry [] (Some (Errorf ''fake registry error'')))) start
       = ((fake_preimage, None, None), mockInvoice True fake_preimage, start)
   \<and> calls start = []"
proof -
  have h: "PaymentPreimage (mockInvoice True fake_preimage) \<noteq> zeroPreimage"
    by (simp add: mockInvoice_def fake_preimage_nonzero)
  show ?thesis
    using h GetPaymentPreimage_local_preimage [OF h, of mockToSatoshis 288 123456
        "Some (mockExtpreimageClient [(zeroPreimage, None, Some (Errorf ''fake permanent error''))])"
        "AddInvoicePreimage (mockRegistry [] (Some (Errorf ''fake registry error'')))" start]
    by (simp add: mockInvoice_def start_def)
qed

text \<open>
  C6. An invoice whose stored \<open>PaymentPreimage\<close> is the zero value and whose
  \<open>ExternalPreimage\<close> flag is false: \<open>GetPaymentPreimage\<close> returns the zero preimage,
  a nil temporary error and the permanent error "no preimage available on invoice".
\<close>

theorem GetPaymentPreimage_no_preimage:
  "PaymentPreimage i = zeroPreimage \<Longrightarrow> \<not> ExternalPreimage i \<Longrightarrow>
     GetPaymentPreimage ToSatoshis i timeLock currentHeight client registry s
       = ((zeroPreimage, None, Some (Errorf ''no preimage available on invoice'')), i, s)"
  by (simp add: GetPaymentPreimage_def)

theorem GetPaymentPreimage_no_preimage_witness:
  "PaymentPreimage (mockInvoice False zeroPreimage) = zeroPreimage
   \<and> \<not> ExternalPreimage (mockInvoice False zeroPreimage)
   \<and> GetPaymentPreimage mockToSatoshis (mockInvoice False zeroPreimage) 288 123456
        (Some (mockExtpreimageClient [(fake_preimage, None, None)]))
        (AddInvoicePreimage (mockRegistry [] None)) start
       = ((zeroPreimage, None, Some (Errorf ''no preimage available on invoice'')),
          mockInvoice False zeroPreimage, start)"
proof -
  have h1: "PaymentPreimage (mockInvoice False zeroPreimage) = zeroPreimage"
    by (simp add: mockInvoice_def)
  have h2: "\<not> ExternalPreimage (mockInvoice False zeroPreimage)"
    by (simp add: mockInvoice_def)
  show ?thesis
    using h1 h2 GetPaymentPreimage_no_preimage [OF h1 h2, of mockToSatoshis 288 123456
        "Some (mockExtpreimageClient [(fake_preimage, None, None)])"
        "AddInvoicePreimage (mockRegistry [] None)" start]
    by simp
qed

text \<open>
  C10. \<open>GetPaymentPreimage\<close> leaves the invoice it is called on as it was: each of the
  five fields is unchanged. When the stored preimage is zero and an external preimage
  is retrieved (both errors nil), the stored preimage is still zero afterwards, and
  what the call did is one \<open>Retrieve\<close> followed by one \<open>AddInvoicePreimage\<close> for the
  invoice's hash and the returned preimage.
\<close>

theorem GetPaymentPreimage_leaves_invoice:
  assumes "GetPaymentPreimage ToSatoshis i timeLock currentHeight client registry s
             = ((preimage, tempErr, permErr), i', s')"
  shows "ExternalPreimage i' = ExternalPreimage i \<and> PaymentHash i' = PaymentHash i
       \<and> PaymentPreimage i' = PaymentPreimage i \<and> Value i' = Value i
       \<and> Settled i' = Settled i \<and> i' = i
       \<and> (PaymentPreimage i = zeroPreimage \<and> tempErr = None \<and> permErr = None
            \<longrightarrow> PaymentPreimage i' = zeroPreimage
              \<and> (\<exists>q. calls s' = calls s
                         @ [Call_Retrieve q, Call_AddInvoicePreimage (PaymentHash i) preimage]))"
proof -
  have same: "i' = i" using assms by (rule GPP_invoice)
  have "PaymentPreimage i = zeroPreimage \<Longrightarrow> tempErr = None \<Longrightarrow> permErr = None \<Longrightarrow>
          \<exists>q. calls s' = calls s @ [Call_Retrieve q, Call_AddInvoicePreimage (PaymentHash i) preimage]"
    using assms GPP_external_success_calls by blast
  then show ?thesis using same by blast
qed

theorem GetPaymentPreimage_leaves_invoice_witness:
  "GetPaymentPreimage mockToSatoshis (mockInvoice True zeroPreimage) 288 123456
      (Some (mockExtpreimageClient [(fake_preimage, None, None)]))
      (AddInvoicePreimage (mockRegistry [] None)) start
     = ((fake_preimage, None, None), mockInvoice True zeroPreimage,
        \<lparr>calls = [Call_Retrieve \<lparr>req_PaymentHash = fake_hash, req_Amount = 1,
                                  req_TimeLock = 288, req_BestHeight = 123456\<rparr>,
                   Call_AddInvoicePreimage fake_hash fake_preimage],
         world = \<lparr>requestCount = 1, witnesses = [],
                  invoicePreimages = [(fake_hash, fake_preimage)]\<rparr>\<rparr>)
   \<and> PaymentPreimage (mockInvoice True zeroPreimage) = zeroPreimage"
proof -
  let ?s' = "\<lparr>calls = [Call_Retrieve \<lparr>req_PaymentHash = fake_hash, req_Amount = 1,
                                     req_TimeLock = 288, req_BestHeight = 123456\<rparr>,
                      Call_AddInvoicePreimage fake_hash fake_preimage],
             world = \<lparr>requestCount = 1, witnesses = [],
                      invoicePreimages = [(fake_hash, fake_preimage)]\<rparr>\<rparr>"
  have run: "GetPaymentPreimage mockToSatoshis (mockInvoice True zeroPreimage) 288 123456
      (Some (mockExtpreimageClient [(fake_preimage, None, None)]))
      (AddInvoicePreimage (mockRegistry [] None)) start
     = ((fake_preimage, None, None), mockInvoice True zeroPreimage, ?s')"
    by (simp add: GetPaymentPreimage_def mockInvoice_def invoke_def mockExtpreimageClient_def
          mockRegistry_def start_def mockToSatoshis_def)
  show ?thesis
    using run GetPaymentPreimage_leaves_invoice [OF run]
    by (simp add: mockInvoice_def)
qed

section \<open>External Preimage Client: Retrieve\<close>

text \<open>
  The SHA-256 digest of the test preimage, computed from the definitions above; it is
  the value that Go's \<^verbatim>\<open>sha256.Sum256\<close> returns for these 32 bytes.
\<close>

lemma sha256_fake_preimage: "sha256_Sum256 fake_preimage = fake_hash"
  by code_simp



text \<open>
  C2. In every result of \<open>Retrieve\<close> and in every result of \<open>GetPaymentPreimage\<close>
  (for any client and registry, also a client that returns both errors), the temporary
  and the permanent error are not both non-nil, and when either is non-nil the
  preimage returned is the zero value.
\<close>

theorem error_channels_exclusive:
  "(Retrieve rpc req cs = ((pre, te, pe), cs')
      \<longrightarrow> (te = None \<or> pe = None) \<and> (te \<noteq> None \<or> pe \<noteq> None \<longrightarrow> pre = zeroPreimage))
   \<and> (GetPaymentPreimage ToSatoshis i timeLock currentHeight client registry s
         = ((pre', te', pe'), i', s')
      \<longrightarrow> (te' = None \<or> pe' = None) \<and> (te' \<noteq> None \<or> pe' \<noteq> None \<longrightarrow> pre' = zeroPreimage))"
  using Retrieve_cases [of rpc req cs pre te pe cs']
    GPP_cases [of ToSatoshis i timeLock currentHeight client registry s pre' te' pe' i' s']
  by blast

theorem error_channels_exclusive_witness:
  "Retrieve (mockRpc RecvEOF) (mockRequest fake_hash) (newMock ''mockhost:12345'' ''bitcoin'', ())
     = ((zeroPreimage, Some (Errorf ''extpreimage: server closed stream early''), None),
        ((newMock ''mockhost:12345'' ''bitcoin'')\<lparr>conn := Some 0\<rparr>, ()))
   \<and> fst (GetPaymentPreimage mockToSatoshis (mockInvoice True zeroPreimage) 288 123456
        (Some (mockExtpreimageClient
           [(fake_preimage, Some (Errorf ''fake temporary error''),
             Some (Errorf ''fake permanent error''))]))
        (AddInvoicePreimage (mockRegistry [] None)) start)
     = (zeroPreimage, None, Some (Errorf ''fake permanent error''))"
proof -
  let ?c = "newMock ''mockhost:12345'' ''bitcoin''"
  let ?cl = "Some (mockExtpreimageClient
           [(fake_preimage, Some (Errorf ''fake temporary error''),
             Some (Errorf ''fake permanent error''))])"
  have r: "Retrieve (mockRpc RecvEOF) (mockRequest fake_hash) (?c, ())
     = ((zeroPreimage, Some (Errorf ''extpreimage: server closed stream early''), None),
        (?c\<lparr>conn := Some 0\<rparr>, ()))"
    by (simp add: Retrieve_def symbol_def retrieve_def connect_def mockRpc_def newMock_def)
  obtain x xt xp j t where g:
    "GetPaymentPreimage mockToSatoshis (mockInvoice True zeroPreimage) 288 123456 ?cl
        (AddInvoicePreimage (mockRegistry [] None)) start = ((x, xt, xp), j, t)"
    by (metis prod_cases3)
  have g': "(x, xt, xp) = (zeroPreimage, None, Some (Errorf ''fake permanent error''))"
    using g by (simp add: GetPaymentPreimage_def mockInvoice_def invoke_def
          mockExtpreimageClient_def start_def)
  have "(xt = None \<or> xp = None) \<and> (xt \<noteq> None \<or> xp \<noteq> None \<longrightarrow> x = zeroPreimage)"
    using error_channels_exclusive [of "mockRpc RecvEOF" "mockRequest fake_hash" "(?c, ())"
        zeroPreimage "Some (Errorf ''extpreimage: server closed stream early'')" None
        "(?c\<lparr>conn := Some 0\<rparr>, ())" mockToSatoshis "mockInvoice True zeroPreimage" 288 123456
        ?cl "AddInvoicePreimage (mockRegistry [] None)" start x xt xp j t] g
    by blast
  then show ?thesis using r g g' by simp
qed

text \<open>
  C1, as the code has it. Whenever \<open>Retrieve\<close> returns with both errors nil, the
  preimage has 32 bytes and its SHA-256 digest is the request's \<open>PaymentHash\<close>. And
  whenever the response declares no permanent error and its preimage fails the check
  (it is not 32 bytes long, or its digest differs from the hash), \<open>Retrieve\<close> returns
  the zero preimage, a temporary error and a nil permanent error.
\<close>

theorem Retrieve_verified_preimage:
  "(Retrieve rpc req s = ((pre, None, None), s')
      \<longrightarrow> length pre = 32 \<and> sha256_Sum256 pre = req_PaymentHash req)
   \<and> (symbol (fst s) = (smb, None) \<and> retrieve rpc (rpcReq req smb) s = (Inr res, s1)
        \<and> res_PermanentError res = ''''
        \<and> (length (res_PaymentPreimage res) \<noteq> 32
             \<or> sha256_Sum256 (res_PaymentPreimage res) \<noteq> req_PaymentHash req)
      \<longrightarrow> (\<exists>e. Retrieve rpc req s = ((zeroPreimage, Some e, None), s1)))"
proof -
  have a: "Retrieve rpc req s = ((pre, None, None), s')
             \<longrightarrow> length pre = 32 \<and> sha256_Sum256 pre = req_PaymentHash req"
    using Retrieve_cases [of rpc req s pre None None s'] by blast
  have b: "symbol (fst s) = (smb, None) \<and> retrieve rpc (rpcReq req smb) s = (Inr res, s1)
        \<and> res_PermanentError res = ''''
        \<and> (length (res_PaymentPreimage res) \<noteq> 32
             \<or> sha256_Sum256 (res_PaymentPreimage res) \<noteq> req_PaymentHash req)
      \<longrightarrow> (\<exists>e. Retrieve rpc req s = ((zeroPreimage, Some e, None), s1))"
    by (auto simp: Retrieve_def)
  show ?thesis using a b by blast
qed

theorem Retrieve_verified_preimage_witness:
  "Retrieve (mockRpc (RecvMsg \<lparr>res_PaymentPreimage = fake_preimage, res_PermanentError = ''''\<rparr>))
      (mockRequest fake_hash) (newMock ''mockhost:12345'' ''bitcoin'', ())
     = ((fake_preimage, None, None), ((newMock ''mockhost:12345'' ''bitcoin'')\<lparr>conn := Some 0\<rparr>, ()))
   \<and> length fake_preimage = 32 \<and> sha256_Sum256 fake_preimage = fake_hash
   \<and> sha256_Sum256 fake_preimage \<noteq> zeroPreimage
   \<and> (\<exists>e. Retrieve (mockRpc (RecvMsg \<lparr>res_PaymentPreimage = fake_preimage, res_PermanentError = ''''\<rparr>))
            (mockRequest zeroPreimage) (newMock ''mockhost:12345'' ''bitcoin'', ())
          = ((zeroPreimage, Some e, None), ((newMock ''mockhost:12345'' ''bitcoin'')\<lparr>conn := Some 0\<rparr>, ())))"
proof -
  let ?res = "\<lparr>res_PaymentPreimage = fake_preimage, res_PermanentError = ''''\<rparr>"
  let ?rpc = "mockRpc (RecvMsg ?res)"
  let ?c = "newMock ''mockhost:12345'' ''bitcoin''"
  have run: "Retrieve ?rpc (mockRequest fake_hash) (?c, ())
               = ((fake_preimage, None, None), (?c\<lparr>conn := Some 0\<rparr>, ()))"
    by (simp add: Retrieve_def retrieve_mock symbol_bitcoin sha256_fake_preimage mockRequest_def
          length_fake_preimage copy_zero32)
  have good: "length fake_preimage = 32
                \<and> sha256_Sum256 fake_preimage = req_PaymentHash (mockRequest fake_hash)"
    using Retrieve_verified_preimage [of ?rpc "mockRequest fake_hash" "(?c, ())" fake_preimage
        "(?c\<lparr>conn := Some 0\<rparr>, ())"] run by blast
  have h: "symbol (fst (?c, ())) = (Symbol_BTC, None)
        \<and> retrieve ?rpc (rpcReq (mockRequest zeroPreimage) Symbol_BTC) (?c, ())
            = (Inr ?res, (?c\<lparr>conn := Some 0\<rparr>, ()))
        \<and> res_PermanentError ?res = ''''
        \<and> (length (res_PaymentPreimage ?res) \<noteq> 32
             \<or> sha256_Sum256 (res_PaymentPreimage ?res) \<noteq> req_PaymentHash (mockRequest zeroPreimage))"
    by (simp add: retrieve_mock symbol_bitcoin sha256_fake_preimage fake_hash_nonzero mockRequest_def)
  have bad: "\<exists>e. Retrieve ?rpc (mockRequest zeroPreimage) (?c, ())
               = ((zeroPreimage, Some e, None), (?c\<lparr>conn := Some 0\<rparr>, ()))"
    using Retrieve_verified_preimage [of ?rpc "mockRequest zeroPreimage" "(?c, ())" undefined
        undefined Symbol_BTC ?res "(?c\<lparr>conn := Some 0\<rparr>, ())"] h by blast
  have nz: "sha256_Sum256 fake_preimage \<noteq> zeroPreimage"
    by (simp add: sha256_fake_preimage fake_hash_nonzero)
  show ?thesis
    using run good bad nz by (simp add: mockRequest_def)
qed

text \<open>
  The claim as it is stated fails on a response that declares a permanent error and
  also carries a preimage: the preimage below has 32 bytes and its digest is not the
  requested hash, yet \<open>Retrieve\<close> returns a permanent error and a nil temporary one,
  because the permanent-error field is tested before the preimage is looked at.
\<close>

theorem Retrieve_hash_check_counterexample:
  "retrieve (mockRpc (RecvMsg \<lparr>res_PaymentPreimage = fake_preimage, res_PermanentError = ''boom''\<rparr>))
       (rpcReq (mockRequest zeroPreimage) Symbol_BTC) (newMock ''mockhost:12345'' ''bitcoin'', ())
     = (Inr \<lparr>res_PaymentPreimage = fake_preimage, res_PermanentError = ''boom''\<rparr>,
        ((newMock ''mockhost:12345'' ''bitcoin'')\<lparr>conn := Some 0\<rparr>, ()))
   \<and> length fake_preimage = 32
   \<and> sha256_Sum256 fake_preimage \<noteq> req_PaymentHash (mockRequest zeroPreimage)
   \<and> Retrieve (mockRpc (RecvMsg \<lparr>res_PaymentPreimage = fake_preimage, res_PermanentError = ''boom''\<rparr>))
       (mockRequest zeroPreimage) (newMock ''mockhost:12345'' ''bitcoin'', ())
     = ((zeroPreimage, None,
         Some (Errorf ''extpreimage: Encountered permanent error from external service: boom'')),
        ((newMock ''mockhost:12345'' ''bitcoin'')\<lparr>conn := Some 0\<rparr>, ()))"
proof -
  let ?res = "\<lparr>res_PaymentPreimage = fake_preimage, res_PermanentError = ''boom''\<rparr>"
  let ?c = "newMock ''mockhost:12345'' ''bitcoin''"
  have a: "retrieve (mockRpc (RecvMsg ?res)) (rpcReq (mockRequest zeroPreimage) Symbol_BTC) (?c, ())
             = (Inr ?res, (?c\<lparr>conn := Some 0\<rparr>, ()))"
    by (rule retrieve_mock)
  have b: "sha256_Sum256 fake_preimage \<noteq> req_PaymentHash (mockRequest zeroPreimage)"
    by (simp add: sha256_fake_preimage fake_hash_nonzero mockRequest_def)
  have c: "Retrieve (mockRpc (RecvMsg ?res)) (mockRequest zeroPreimage) (?c, ())
     = ((zeroPreimage, None,
         Some (Errorf ''extpreimage: Encountered permanent error from external service: boom'')),
        (?c\<lparr>conn := Some 0\<rparr>, ()))"
    by (simp add: Retrieve_def symbol_bitcoin a)
  show ?thesis using a b c length_fake_preimage by blast
qed

section \<open>Preimage Beacon: AddPreimage\<close>

lemma foldl_effect_calls:
  "calls (foldl (\<lambda>s' c. effect (f c) s') s xs) = calls s @ map f xs"
  by (induction xs arbitrary: s) (simp_all add: effect_def)

lemma spawned_append: "spawned (s\<lparr>calls := calls s @ cs\<rparr>) = spawned s @ spawned \<lparr>calls = cs, world = world s\<rparr>"
  by (simp add: spawned_def)

text \<open>For contrast: when the write succeeds, one delivery is started per subscriber.\<close>

lemma AddPreimage_success_fanout:
  assumes "AddWitness (wCache p) Sha256HashWitness pre (world s) = (None, w')"
  shows "fst (AddPreimage p pre s) = None
       \<and> calls (snd (AddPreimage p pre s))
           = calls s @ Call_AddWitness Sha256HashWitness pre
               # map (\<lambda>c. Go (Go_notify c pre)) (map snd (subscribers p))"
  using assms by (simp add: AddPreimage_def invoke_def foldl_effect_calls)

text \<open>
  C4. When \<open>AddWitness\<close> fails inside \<open>AddPreimage\<close>, \<open>AddPreimage\<close> returns that
  error; the only thing it has done is the call of \<open>AddWitness\<close>, so no delivery
  goroutine is started for any subscriber, whatever subscribers are registered.
\<close>

theorem AddPreimage_store_failure:
  assumes "AddWitness (wCache p) Sha256HashWitness pre (world s) = (Some err, w')"
  shows "AddPreimage p pre s
           = (Some err, \<lparr>calls = calls s @ [Call_AddWitness Sha256HashWitness pre], world = w'\<rparr>)
       \<and> spawned (snd (AddPreimage p pre s)) = spawned s"
  using assms by (simp add: AddPreimage_def invoke_def spawned_def)

theorem AddPreimage_store_failure_witness:
  "AddWitness (wCache (mockBeacon [] (mockInvoice True zeroPreimage)
                         (Some (Errorf ''fake cache error''))))
       Sha256HashWitness fake_preimage (world start)
     = (Some (Errorf ''fake cache error''), world start)
   \<and> length (subscribers (mockBeacon [] (mockInvoice True zeroPreimage)
                            (Some (Errorf ''fake cache error'')))) = 2
   \<and> AddPreimage (mockBeacon [] (mockInvoice True zeroPreimage) (Some (Errorf ''fake cache error'')))
        fake_preimage start
     = (Some (Errorf ''fake cache error''),
        \<lparr>calls = [Call_AddWitness Sha256HashWitness fake_preimage], world = world start\<rparr>)
   \<and> spawned (snd (AddPreimage (mockBeacon [] (mockInvoice True zeroPreimage)
                                   (Some (Errorf ''fake cache error''))) fake_preimage start)) = []"
proof -
  let ?b = "mockBeacon [] (mockInvoice True zeroPreimage) (Some (Errorf ''fake cache error''))"
  have h: "AddWitness (wCache ?b) Sha256HashWitness fake_preimage (world start)
             = (Some (Errorf ''fake cache error''), world start)"
    by (simp add: mockBeacon_def mockWitnessCache_def)
  have n: "length (subscribers ?b) = 2"
    by (simp add: mockBeacon_def)
  have e: "spawned start = []" "calls start = []"
    by (simp_all add: spawned_def start_def)
  show ?thesis
    using h n e AddPreimage_store_failure [OF h] by (simp add: spawned_def)
qed

section \<open>Preimage Beacon: LookupPreimage\<close>

lemma invoiceKey_take:
  "invoiceKey payHash = take 32 payHash @ replicate (32 - length payHash) 0"
  by (simp add: invoiceKey_def copy_def Let_def min_def)

lemma length_invoiceKey: "length (invoiceKey payHash) = 32"
  by (simp add: invoiceKey_take)

lemma invoiceKey_32: "length h = 32 \<Longrightarrow> invoiceKey h = h"
  by (simp add: invoiceKey_take)

lemma LookupPreimage_found:
  assumes found: "LookupInvoice (invoices p) (invoiceKey payHash) (world s)
                    = (InvoiceFound invoice height, w1)"
    and res: "GetPaymentPreimage T (castInvoiceTerm invoice) 0 0 (extpreimageClient p)
                (AddInvoicePreimage (invoices p))
                \<lparr>calls = calls s @ [Call_LookupInvoice (invoiceKey payHash)], world = w1\<rparr>
              = ((preimage, tempErr, permErr), i', s2)"
  shows "LookupPreimage T p payHash s =
           (if permErr \<noteq> None then ((None, False), s2)
            else if tempErr \<noteq> None
            then ((None, False), effect (Go (Go_pollExtpreimage i' (10 * Second))) s2)
            else ((Some preimage, True), s2))"
  using found res by (simp add: LookupPreimage_def invoke_def)

text \<open>
  C3. When the invoice store has the invoice, \<open>LookupPreimage\<close> resolves it with
  \<open>GetPaymentPreimage\<close> at time lock 0 and height 0. A permanent error gives
  \<open>(nil, false)\<close> and starts no goroutine; a temporary error gives \<open>(nil, false)\<close> and
  starts exactly one goroutine, \<open>pollExtpreimage\<close> for this invoice's terms with an
  interval of ten seconds; a success gives the resolved preimage and \<open>true\<close> and starts
  no goroutine. No error is part of what \<open>LookupPreimage\<close> returns.
\<close>

theorem LookupPreimage_resolution:
  assumes found: "LookupInvoice (invoices p) (invoiceKey payHash) (world s)
                    = (InvoiceFound invoice height, w1)"
    and res: "GetPaymentPreimage T (castInvoiceTerm invoice) 0 0 (extpreimageClient p)
                (AddInvoicePreimage (invoices p))
                \<lparr>calls = calls s @ [Call_LookupInvoice (invoiceKey payHash)], world = w1\<rparr>
              = ((preimage, tempErr, permErr), i', s2)"
  shows "(permErr \<noteq> None \<longrightarrow>
            fst (LookupPreimage T p payHash s) = (None, False)
            \<and> spawned (snd (LookupPreimage T p payHash s)) = spawned s)
       \<and> (tempErr \<noteq> None \<longrightarrow>
            fst (LookupPreimage T p payHash s) = (None, False)
            \<and> spawned (snd (LookupPreimage T p payHash s))
                = spawned s @ [Go_pollExtpreimage (castInvoiceTerm invoice) (10 * Second)])
       \<and> (tempErr = None \<and> permErr = None \<longrightarrow>
            fst (LookupPreimage T p payHash s) = (Some preimage, True)
            \<and> spawned (snd (LookupPreimage T p payHash s)) = spawned s)"
proof -
  have i': "i' = castInvoiceTerm invoice" using res by (rule GPP_invoice)
  have sp: "spawned s2 = spawned s"
    using GPP_spawned [OF res] by (simp add: spawned_def)
  have excl: "tempErr \<noteq> None \<longrightarrow> permErr = None"
    using GPP_cases [OF res] by blast
  have sp': "spawned (effect (Go (Go_pollExtpreimage i' (10 * Second))) s2)
               = spawned s @ [Go_pollExtpreimage i' (10 * Second)]"
    using sp by (simp add: effect_def spawned_def)
  show ?thesis
    using LookupPreimage_found [OF found res] i' sp sp' excl by auto
qed

end
